theory Spec2Isabelle
  imports Main "HOL-Library.Word"
begin

unbundle bit_operations_syntax

section \<open>The VEIKK digitizer driver (hid-veikk.c)\<close>

text \<open>
  A shallow embedding of the frame decoder, the bitmap state merger and the activation
  sequencer of \<^verbatim>\<open>hid-veikk.c\<close>. Every C function that reports to the input device
  returns, besides its return value, the updated device descriptor and the list of calls
  it made on \<^verbatim>\<open>struct input_dev\<close>, in program order.
\<close>

subsection \<open>Machine integers\<close>

type_synonym u8 = "8 word"
type_synonym u16 = "16 word"
type_synonym c_int = "32 word"

text \<open>
  The integer promotions of C: an operand of type \<^verbatim>\<open>u8\<close> or \<^verbatim>\<open>u16\<close> is widened to
  \<^verbatim>\<open>int\<close> before \<^verbatim>\<open>|\<close>, \<^verbatim>\<open>&\<close> and \<^verbatim>\<open>~\<close>, and the result of a compound assignment is
  converted back to the type of its left operand, which keeps the low bits.
\<close>

definition promote_u8 :: "u8 \<Rightarrow> c_int" where
  "promote_u8 v = ucast v"

definition promote_u16 :: "u16 \<Rightarrow> c_int" where
  "promote_u16 v = ucast v"

definition to_u8 :: "c_int \<Rightarrow> u8" where
  "to_u8 v = ucast v"

definition to_u16 :: "c_int \<Rightarrow> u16" where
  "to_u16 v = ucast v"

text \<open>
  \<^verbatim>\<open>get_unaligned_le16\<close> is the kernel's helper of \<^verbatim>\<open>asm/unaligned.h\<close>; it reads
  \<^verbatim>\<open>p[0] | p[1] << 8\<close> as a \<^verbatim>\<open>u16\<close>. A two-byte array \<^verbatim>\<open>u8 x[2]\<close> is a pair.
\<close>

definition get_unaligned_le16 :: "u8 \<times> u8 \<Rightarrow> u16" where
  "get_unaligned_le16 p = ucast (fst p) OR push_bit 8 (ucast (snd p))"

subsection \<open>Report types and structures\<close>

definition VEIKK_PEN_REPORT :: u8 where
  "VEIKK_PEN_REPORT = 0x41"

definition VEIKK_BUTTON_REPORT :: u8 where
  "VEIKK_BUTTON_REPORT = 0x42"

definition VEIKK_PAD_REPORT :: u8 where
  "VEIKK_PAD_REPORT = 0x43"

text \<open>\<^verbatim>\<open>sizeof(struct veikk_report)\<close>: one id byte, one type byte, seven data bytes.\<close>

definition sizeof_veikk_report :: nat where
  "sizeof_veikk_report = 9"

text \<open>
  The three payload structures. Field names that C repeats in several structures carry
  the structure as a suffix here.
\<close>

record veikk_pen_report_data =
  btns_pen :: u8
  x :: "u8 \<times> u8"
  y :: "u8 \<times> u8"
  pressure :: "u8 \<times> u8"

record veikk_buttons_report_data =
  type_buttons :: u8
  pressed_buttons :: u8
  btns_buttons :: "u8 \<times> u8"
  unused2 :: "u8 list"

record veikk_pad_report_data =
  pressed_pad :: u8
  btns_pad :: u8
  unused :: "u8 list"

text \<open>
  The casts of \<^verbatim>\<open>veikk_report->data\<close> (the seven bytes from offset 2 of the raw
  report) to the payload structures. They are applied only after the size check of
  \<^verbatim>\<open>veikk_raw_event\<close>, so every index read here is within the report.
\<close>

definition pen_report_data_of :: "u8 list \<Rightarrow> veikk_pen_report_data" where
  "pen_report_data_of d =
     \<lparr>btns_pen = d ! 0, x = (d ! 1, d ! 2), y = (d ! 3, d ! 4), pressure = (d ! 5, d ! 6)\<rparr>"

definition buttons_report_data_of :: "u8 list \<Rightarrow> veikk_buttons_report_data" where
  "buttons_report_data_of d =
     \<lparr>type_buttons = d ! 0, pressed_buttons = d ! 1, btns_buttons = (d ! 2, d ! 3),
      unused2 = drop 4 d\<rparr>"

definition pad_report_data_of :: "u8 list \<Rightarrow> veikk_pad_report_data" where
  "pad_report_data_of d =
     \<lparr>pressed_pad = d ! 0, btns_pad = d ! 1, unused = drop 2 d\<rparr>"

subsection \<open>Models and the device descriptor\<close>

record veikk_model =
  name :: string
  prod_id :: int
  x_max :: int
  y_max :: int
  pressure_max :: int
  has_buttons :: int
  has_pad :: int

definition veikk_model_0x0001 :: veikk_model where
  "veikk_model_0x0001 =
     \<lparr>name = ''VEIKK S640'', prod_id = 0x0001, x_max = 30480, y_max = 20320,
      pressure_max = 8192, has_buttons = 0, has_pad = 0\<rparr>"

definition veikk_model_0x0002 :: veikk_model where
  "veikk_model_0x0002 =
     \<lparr>name = ''VEIKK A30'', prod_id = 0x0002, x_max = 32768, y_max = 32768,
      pressure_max = 8192, has_buttons = 1, has_pad = 1\<rparr>"

definition veikk_model_0x0003 :: veikk_model where
  "veikk_model_0x0003 =
     \<lparr>name = ''VEIKK A50'', prod_id = 0x0003, x_max = 50800, y_max = 30480,
      pressure_max = 8192, has_buttons = 1, has_pad = 1\<rparr>"

definition veikk_model_0x0004 :: veikk_model where
  "veikk_model_0x0004 =
     \<lparr>name = ''VEIKK A15'', prod_id = 0x0004, x_max = 32768, y_max = 32768,
      pressure_max = 8192, has_buttons = 1, has_pad = 1\<rparr>"

definition veikk_model_0x0006 :: veikk_model where
  "veikk_model_0x0006 =
     \<lparr>name = ''VEIKK A15 Pro'', prod_id = 0x0006, x_max = 32768, y_max = 32768,
      pressure_max = 8192, has_buttons = 1, has_pad = 1\<rparr>"

definition veikk_model_0x1001 :: veikk_model where
  "veikk_model_0x1001 =
     \<lparr>name = ''VEIKK VK1560'', prod_id = 0x1001, x_max = 34420, y_max = 19360,
      pressure_max = 8192, has_buttons = 1, has_pad = 0\<rparr>"

text \<open>
  \<^verbatim>\<open>struct veikk_device\<close>: the model and the three bitmaps. The pointers to the input
  device and to the HID device, and the three work items, are the collaborators whose
  calls the functions below return.
\<close>

record veikk_device =
  model :: veikk_model
  buttons_state :: u16
  pad_state :: u8
  wheel_state :: u8

text \<open>
  \<^verbatim>\<open>veikk_probe\<close> allocates the descriptor with \<^verbatim>\<open>devm_kzalloc\<close>, which zeroes it, and
  sets the model.
\<close>

definition veikk_probe_device :: "veikk_model \<Rightarrow> veikk_device" where
  "veikk_probe_device m = \<lparr>model = m, buttons_state = 0, pad_state = 0, wheel_state = 0\<rparr>"

subsection \<open>Calls on the input device\<close>

text \<open>
  The event codes are the names the source writes; \<^verbatim>\<open>0x118\<close> and \<^verbatim>\<open>0x119\<close> are
  the two codes it writes as numbers. Their numeric values belong to the kernel's
  \<^verbatim>\<open>input-event-codes.h\<close>, so the statements below speak of the calls by position
  and name and never of two names being different numbers.
\<close>

datatype abs_code = ABS_X | ABS_Y | ABS_PRESSURE

datatype key_code =
    BTN_TOUCH | BTN_STYLUS | BTN_STYLUS2
  | BTN_0 | BTN_1 | BTN_2 | BTN_3 | BTN_4 | BTN_5 | BTN_6 | BTN_7 | BTN_8 | BTN_9
  | KEY_0x118 | KEY_0x119
  | BTN_WHEEL | BTN_GEAR_DOWN | BTN_GEAR_UP
  | BTN_NORTH | BTN_SOUTH | BTN_WEST | BTN_EAST | BTN_TOOL_DOUBLETAP

text \<open>
  A call carries the \<^verbatim>\<open>int\<close> value the driver passes. The kernel's
  \<^verbatim>\<open>input_report_key\<close> reports a key as pressed when that value is not zero.
\<close>

datatype input_call =
    Input_report_abs abs_code int
  | Input_report_key key_code int
  | Input_sync

datatype errno = EINVAL | ENOMEM | Errno int

subsection \<open>The three event handlers\<close>

definition veikk_pen_event ::
  "veikk_pen_report_data \<Rightarrow> veikk_device \<Rightarrow> int \<times> veikk_device \<times> input_call list" where
  "veikk_pen_event evt veikk_dev =
     (0, veikk_dev,
      [Input_report_abs ABS_X (uint (get_unaligned_le16 (x evt))),
       Input_report_abs ABS_Y (uint (get_unaligned_le16 (y evt))),
       Input_report_abs ABS_PRESSURE (uint (get_unaligned_le16 (pressure evt))),
       Input_report_key BTN_TOUCH (uint (btns_pen evt AND 0x01)),
       Input_report_key BTN_STYLUS (uint (btns_pen evt AND 0x02)),
       Input_report_key BTN_STYLUS2 (uint (btns_pen evt AND 0x04))])"

text \<open>
  The fifteen calls that end \<^verbatim>\<open>veikk_buttons_event\<close>, on its locals
  \<^verbatim>\<open>buttons_state\<close> and \<^verbatim>\<open>wheel_state\<close>.
\<close>

definition report_buttons :: "u16 \<Rightarrow> u8 \<Rightarrow> input_call list" where
  "report_buttons b_state w_state =
     [Input_report_key BTN_0 (uint (b_state AND 0x001)),
      Input_report_key BTN_1 (uint (b_state AND 0x002)),
      Input_report_key BTN_2 (uint (b_state AND 0x004)),
      Input_report_key BTN_3 (uint (b_state AND 0x008)),
      Input_report_key BTN_4 (uint (b_state AND 0x010)),
      Input_report_key BTN_5 (uint (b_state AND 0x020)),
      Input_report_key BTN_6 (uint (b_state AND 0x040)),
      Input_report_key BTN_7 (uint (b_state AND 0x080)),
      Input_report_key BTN_8 (uint (b_state AND 0x100)),
      Input_report_key BTN_9 (uint (b_state AND 0x200)),
      Input_report_key KEY_0x118 (uint (b_state AND 0x400)),
      Input_report_key KEY_0x119 (uint (b_state AND 0x800)),
      Input_report_key BTN_WHEEL (uint (b_state AND 0x1000)),
      Input_report_key BTN_GEAR_DOWN (uint (w_state AND 0x1)),
      Input_report_key BTN_GEAR_UP (uint (w_state AND 0x2))]"

text \<open>
  In \<^verbatim>\<open>veikk_buttons_event\<close> a compound assignment writes the field of the device,
  and its value, already converted to the type of the field, is the local copy that is
  reported.
\<close>

definition veikk_buttons_event ::
  "veikk_buttons_report_data \<Rightarrow> veikk_device \<Rightarrow> int \<times> veikk_device \<times> input_call list" where
  "veikk_buttons_event evt veikk_dev =
     (let event_buttons = get_unaligned_le16 (btns_buttons evt)
      in if type_buttons evt = 1 then
           (let b_state =
                  (if pressed_buttons evt \<noteq> 0
                   then to_u16 (promote_u16 (buttons_state veikk_dev)
                                OR promote_u16 event_buttons)
                   else to_u16 (promote_u16 (buttons_state veikk_dev)
                                AND NOT (promote_u16 event_buttons)));
                veikk_dev' = veikk_dev\<lparr>buttons_state := b_state\<rparr>;
                w_state = wheel_state veikk_dev'
            in (0, veikk_dev', report_buttons b_state w_state))
         else
           (let b_state = buttons_state veikk_dev;
                w_state =
                  (if pressed_buttons evt \<noteq> 0
                   then to_u8 (promote_u8 (wheel_state veikk_dev)
                               OR promote_u16 event_buttons)
                   else to_u8 (promote_u8 (wheel_state veikk_dev)
                               AND NOT (promote_u16 event_buttons)));
                veikk_dev' = veikk_dev\<lparr>wheel_state := w_state\<rparr>
            in (0, veikk_dev', report_buttons b_state w_state)))"

text \<open>The five calls that end \<^verbatim>\<open>veikk_pad_event\<close>, on its local \<^verbatim>\<open>state\<close>.\<close>

definition report_pad :: "u8 \<Rightarrow> input_call list" where
  "report_pad state =
     [Input_report_key BTN_NORTH (uint (state AND 0x01)),
      Input_report_key BTN_SOUTH (uint (state AND 0x02)),
      Input_report_key BTN_WEST (uint (state AND 0x04)),
      Input_report_key BTN_EAST (uint (state AND 0x08)),
      Input_report_key BTN_TOOL_DOUBLETAP (uint (state AND 0x10))]"

definition veikk_pad_event ::
  "veikk_pad_report_data \<Rightarrow> veikk_device \<Rightarrow> int \<times> veikk_device \<times> input_call list" where
  "veikk_pad_event evt veikk_dev =
     (let state =
            (if pressed_pad evt \<noteq> 0
             then to_u8 (promote_u8 (pad_state veikk_dev) OR promote_u8 (btns_pad evt))
             else to_u8 (promote_u8 (pad_state veikk_dev)
                         AND NOT (promote_u8 (btns_pad evt))))
      in (0, veikk_dev\<lparr>pad_state := state\<rparr>, report_pad state))"

subsection \<open>The frame decoder\<close>

text \<open>
  \<^verbatim>\<open>veikk_raw_event\<close> receives the id of the HID report, \<^verbatim>\<open>report->id\<close>, and the
  raw bytes; \<^verbatim>\<open>size\<close> is the length of the byte list. A handler that returned
  non-zero would make it return \<^verbatim>\<open>-EINVAL\<close> without \<^verbatim>\<open>input_sync\<close>.
\<close>

definition handled ::
  "int \<times> veikk_device \<times> input_call list \<Rightarrow> (errno + int) \<times> veikk_device \<times> input_call list"
  where
  "handled r =
     (case r of (ret, veikk_dev, calls) \<Rightarrow>
        if ret \<noteq> 0 then (Inl EINVAL, veikk_dev, calls)
        else (Inr 1, veikk_dev, calls @ [Input_sync]))"

definition veikk_raw_event ::
  "veikk_device \<Rightarrow> 32 word \<Rightarrow> u8 list \<Rightarrow> (errno + int) \<times> veikk_device \<times> input_call list"
  where
  "veikk_raw_event veikk_dev report_id data =
     (if report_id \<noteq> 9 \<or> length data \<noteq> sizeof_veikk_report then (Inl EINVAL, veikk_dev, [])
      else if data ! 1 = VEIKK_PEN_REPORT
        then handled (veikk_pen_event (pen_report_data_of (drop 2 data)) veikk_dev)
      else if data ! 1 = VEIKK_BUTTON_REPORT
        then handled (veikk_buttons_event (buttons_report_data_of (drop 2 data)) veikk_dev)
      else if data ! 1 = VEIKK_PAD_REPORT
        then handled (veikk_pad_event (pad_report_data_of (drop 2 data)) veikk_dev)
      else (Inr 0, veikk_dev, []))"

text \<open>The three components of a result.\<close>

definition ret_of :: "'r \<times> veikk_device \<times> input_call list \<Rightarrow> 'r" where
  "ret_of r = fst r"

definition dev_of :: "'r \<times> veikk_device \<times> input_call list \<Rightarrow> veikk_device" where
  "dev_of r = fst (snd r)"

definition calls_of :: "'r \<times> veikk_device \<times> input_call list \<Rightarrow> input_call list" where
  "calls_of r = snd (snd r)"

subsection \<open>Activation\<close>

definition pen_output_report :: "u8 list" where
  "pen_output_report = [0x09, 0x01, 0x04, 0x00, 0x00, 0x00, 0x00, 0x00, 0x00]"

definition buttons_output_report :: "u8 list" where
  "buttons_output_report = [0x09, 0x02, 0x02, 0x00, 0x00, 0x00, 0x00, 0x00, 0x00]"

definition pad_output_report :: "u8 list" where
  "pad_output_report = [0x09, 0x03, 0x02, 0x00, 0x00, 0x00, 0x00, 0x00, 0x00]"

text \<open>
  \<^verbatim>\<open>veikk_setup_feature\<close>: the outcome of \<^verbatim>\<open>devm_kzalloc\<close> is an argument; the second
  component is the list of buffers handed to \<^verbatim>\<open>output_report\<close>.
\<close>

definition veikk_setup_feature :: "bool \<Rightarrow> int \<Rightarrow> (errno + int) \<times> u8 list list" where
  "veikk_setup_feature buf_allocated device_type =
     (let buf_len = length pen_output_report
      in if device_type = 0 \<or> device_type = 1 \<or> device_type = 2 then
           (let output_report =
                  (if device_type = 0 then pen_output_report
                   else if device_type = 1 then buttons_output_report
                   else pad_output_report)
            in if \<not> buf_allocated then (Inl ENOMEM, [])
               else (Inr 0, [take buf_len output_report]))
         else (Inl EINVAL, []))"

datatype work_fn = Veikk_setup_pen | Veikk_setup_buttons | Veikk_setup_pad

fun run_work :: "bool \<Rightarrow> work_fn \<Rightarrow> (errno + int) \<times> u8 list list" where
  "run_work a Veikk_setup_pen = veikk_setup_feature a 0"
| "run_work a Veikk_setup_buttons = veikk_setup_feature a 1"
| "run_work a Veikk_setup_pad = veikk_setup_feature a 2"

text \<open>
  \<^verbatim>\<open>veikk_allocate_setup_register_inputs\<close>. The outcomes of the kernel calls are
  arguments: whether \<^verbatim>\<open>devm_input_allocate_device\<close> returned a device, whether the
  name buffer of \<^verbatim>\<open>veikk_setup_bundled_inputs\<close> was allocated, and the return value of
  \<^verbatim>\<open>input_register_device\<close>. The second component lists the calls of
  \<^verbatim>\<open>schedule_delayed_work\<close>, each with the function of its work item and its delay.
\<close>

definition veikk_setup_bundled_inputs :: "bool \<Rightarrow> errno + int" where
  "veikk_setup_bundled_inputs name_allocated = (if \<not> name_allocated then Inl ENOMEM else Inr 0)"

definition veikk_register_input :: "int \<Rightarrow> errno + int" where
  "veikk_register_input register_ret = (if register_ret \<noteq> 0 then Inl (Errno register_ret) else Inr 0)"

definition veikk_allocate_setup_register_inputs ::
  "veikk_device \<Rightarrow> bool \<Rightarrow> bool \<Rightarrow> int \<Rightarrow> (errno + int) \<times> (work_fn \<times> nat) list" where
  "veikk_allocate_setup_register_inputs veikk_dev input_allocated name_allocated register_ret =
     (if \<not> input_allocated then (Inl ENOMEM, [])
      else case veikk_setup_bundled_inputs name_allocated of
        Inl err \<Rightarrow> (Inl err, [])
      | Inr _ \<Rightarrow>
        (case veikk_register_input register_ret of
           Inl err \<Rightarrow> (Inl err, [])
         | Inr _ \<Rightarrow>
           (Inr 0,
            [(Veikk_setup_pen, 100)]
            @ (if has_buttons (model veikk_dev) \<noteq> 0 then [(Veikk_setup_buttons, 200)] else [])
            @ (if has_pad (model veikk_dev) \<noteq> 0 then [(Veikk_setup_pad, 300)] else []))))"

section \<open>Auxiliary facts\<close>

subsection \<open>Conversions and bit tests\<close>

lemma u16_or: "to_u16 (promote_u16 a OR promote_u16 b) = a OR b"
  unfolding to_u16_def promote_u16_def
  by (rule bit_word_eqI) (auto simp: bit_simps)

lemma u16_andnot: "to_u16 (promote_u16 a AND NOT (promote_u16 b)) = a AND NOT b"
  unfolding to_u16_def promote_u16_def
  by (rule bit_word_eqI) (auto simp: bit_simps)

lemma u8_or: "to_u8 (promote_u8 a OR promote_u8 b) = a OR b"
  unfolding to_u8_def promote_u8_def
  by (rule bit_word_eqI) (auto simp: bit_simps)

lemma u8_andnot: "to_u8 (promote_u8 a AND NOT (promote_u8 b)) = a AND NOT b"
  unfolding to_u8_def promote_u8_def
  by (rule bit_word_eqI) (auto simp: bit_simps)

lemma wheel_or: "to_u8 (promote_u8 a OR promote_u16 m) = a OR ucast m"
  unfolding to_u8_def promote_u8_def promote_u16_def
  by (rule bit_word_eqI) (auto simp: bit_simps)

lemma wheel_andnot: "to_u8 (promote_u8 a AND NOT (promote_u16 m)) = a AND NOT (ucast m)"
  unfolding to_u8_def promote_u8_def promote_u16_def
  by (rule bit_word_eqI) (auto simp: bit_simps)

lemma or_narrow: "ucast ((ucast (a::8 word) :: 16 word) OR m) = a OR (ucast m :: 8 word)"
  by (rule bit_word_eqI) (auto simp: bit_simps)

lemma andnot_narrow:
  "ucast ((ucast (a::8 word) :: 16 word) AND NOT m) = a AND NOT (ucast m :: 8 word)"
  by (rule bit_word_eqI) (auto simp: bit_simps)

lemma le16_or_plus:
  "(ucast (b0::8 word) :: 16 word) OR push_bit 8 (ucast (b1::8 word))
   = ucast b0 + push_bit 8 (ucast b1)"
  by (rule disjunctive_add_eq_or [symmetric], rule bit_word_eqI)
     (auto simp: bit_simps dest: bit_imp_le_length)

lemma uint_hi: "uint (push_bit 8 (ucast (b1::8 word)) :: 16 word) = 256 * uint b1"
proof -
  have "uint b1 < 2 ^ 8" using uint_lt2p [of b1] by simp
  then have lt: "256 * uint b1 < 2 ^ 16" by simp
  have ge: "0 \<le> 256 * uint b1" by simp
  have "uint (push_bit 8 (ucast b1) :: 16 word)
        = take_bit LENGTH(16) (push_bit 8 (uint (ucast b1 :: 16 word)))"
    by (rule unsigned_push_bit_eq)
  also have "\<dots> = take_bit 16 (256 * uint b1)"
    by (simp add: uint_up_ucast is_up push_bit_eq_mult mult.commute)
  also have "\<dots> = 256 * uint b1"
    using lt ge by (simp add: take_bit_int_eq_self)
  finally show ?thesis .
qed

lemma le16_uint: "uint (get_unaligned_le16 (b0, b1)) = uint b0 + 256 * uint b1"
proof -
  have b0: "uint b0 < 2 ^ 8" using uint_lt2p [of b0] by simp
  have b1: "uint b1 < 2 ^ 8" using uint_lt2p [of b1] by simp
  have "uint (ucast b0 :: 16 word) + uint (push_bit 8 (ucast b1) :: 16 word) < 2 ^ 16"
    using b0 b1 by (simp add: uint_hi uint_up_ucast is_up)
  then have "uint (ucast b0 + push_bit 8 (ucast b1) :: 16 word) = uint b0 + 256 * uint b1"
    by (simp add: uint_add_lem [THEN iffD1] uint_hi uint_up_ucast is_up)
  then show ?thesis by (simp add: get_unaligned_le16_def le16_or_plus)
qed

lemma le16_sum:
  "get_unaligned_le16 (b0, b1) = ucast b0 + 256 * ucast b1"
proof -
  have "get_unaligned_le16 (b0, b1) = ucast b0 + push_bit 8 (ucast b1)"
    by (simp only: get_unaligned_le16_def fst_conv snd_conv le16_or_plus)
  then show ?thesis
    by (simp add: push_bit_eq_mult mult.commute)
qed

lemma le16_low: "ucast (get_unaligned_le16 (b0, b1)) = (b0 :: 8 word)"
  unfolding get_unaligned_le16_def
  by (rule bit_word_eqI) (auto simp: bit_simps)

lemma le16_split: "get_unaligned_le16 (ucast m, ucast (drop_bit 8 m)) = m"
  unfolding get_unaligned_le16_def
  by (rule bit_word_eqI) (auto simp: bit_simps)

lemma and_exp_if: "(f :: 'a::len word) AND 2 ^ n = (if bit f n then 2 ^ n else 0)"
  by (rule bit_word_eqI) (auto simp: bit_simps)

lemma uint_and_bit0: "uint ((f::8 word) AND 1) = (if bit f 0 then 1 else 0)"
  using and_exp_if [of f 0] by simp

lemma uint_and_bit1: "uint ((f::8 word) AND 2) = (if bit f 1 then 2 else 0)"
  using and_exp_if [of f 1] by simp

lemma uint_and_bit2: "uint ((f::8 word) AND 4) = (if bit f 2 then 4 else 0)"
  using and_exp_if [of f 2] by simp

lemma uint16_and_bit:
  "uint ((s::16 word) AND 0x001) = (if bit s 0 then 1 else 0)"
  "uint (s AND 0x002) = (if bit s 1 then 2 else 0)"
  "uint (s AND 0x004) = (if bit s 2 then 4 else 0)"
  "uint (s AND 0x008) = (if bit s 3 then 8 else 0)"
  "uint (s AND 0x010) = (if bit s 4 then 16 else 0)"
  "uint (s AND 0x020) = (if bit s 5 then 32 else 0)"
  "uint (s AND 0x040) = (if bit s 6 then 64 else 0)"
  "uint (s AND 0x080) = (if bit s 7 then 128 else 0)"
  "uint (s AND 0x100) = (if bit s 8 then 256 else 0)"
  "uint (s AND 0x200) = (if bit s 9 then 512 else 0)"
  "uint (s AND 0x400) = (if bit s 10 then 1024 else 0)"
  "uint (s AND 0x800) = (if bit s 11 then 2048 else 0)"
  "uint (s AND 0x1000) = (if bit s 12 then 4096 else 0)"
  using and_exp_if [of s 0] and_exp_if [of s 1] and_exp_if [of s 2] and_exp_if [of s 3]
    and_exp_if [of s 4] and_exp_if [of s 5] and_exp_if [of s 6] and_exp_if [of s 7]
    and_exp_if [of s 8] and_exp_if [of s 9] and_exp_if [of s 10] and_exp_if [of s 11]
    and_exp_if [of s 12]
  by simp_all

subsection \<open>The decoder, branch by branch\<close>

lemma raw_reject:
  "report_id \<noteq> 9 \<or> length data \<noteq> 9 \<Longrightarrow>
   veikk_raw_event dev report_id data = (Inl EINVAL, dev, [])"
  by (auto simp: veikk_raw_event_def sizeof_veikk_report_def)

lemma raw_pen:
  "length data = 9 \<Longrightarrow> data ! 1 = 0x41 \<Longrightarrow>
   veikk_raw_event dev 9 data =
     handled (veikk_pen_event
       \<lparr>btns_pen = data ! 2, x = (data ! 3, data ! 4), y = (data ! 5, data ! 6),
        pressure = (data ! 7, data ! 8)\<rparr> dev)"
  by (simp add: veikk_raw_event_def sizeof_veikk_report_def VEIKK_PEN_REPORT_def
      pen_report_data_of_def)

lemma raw_buttons:
  "length data = 9 \<Longrightarrow> data ! 1 = 0x42 \<Longrightarrow>
   veikk_raw_event dev 9 data =
     handled (veikk_buttons_event
       \<lparr>type_buttons = data ! 2, pressed_buttons = data ! 3,
        btns_buttons = (data ! 4, data ! 5), unused2 = drop 6 data\<rparr> dev)"
  by (simp add: veikk_raw_event_def sizeof_veikk_report_def VEIKK_PEN_REPORT_def
      VEIKK_BUTTON_REPORT_def buttons_report_data_of_def)

lemma raw_pad:
  "length data = 9 \<Longrightarrow> data ! 1 = 0x43 \<Longrightarrow>
   veikk_raw_event dev 9 data =
     handled (veikk_pad_event
       \<lparr>pressed_pad = data ! 2, btns_pad = data ! 3, unused = drop 4 data\<rparr> dev)"
  by (simp add: veikk_raw_event_def sizeof_veikk_report_def VEIKK_PEN_REPORT_def
      VEIKK_BUTTON_REPORT_def VEIKK_PAD_REPORT_def pad_report_data_of_def)

lemma raw_unknown:
  "length data = 9 \<Longrightarrow> data ! 1 \<noteq> 0x41 \<Longrightarrow> data ! 1 \<noteq> 0x42 \<Longrightarrow> data ! 1 \<noteq> 0x43 \<Longrightarrow>
   veikk_raw_event dev 9 data = (Inr 0, dev, [])"
  by (simp add: veikk_raw_event_def sizeof_veikk_report_def VEIKK_PEN_REPORT_def
      VEIKK_BUTTON_REPORT_def VEIKK_PAD_REPORT_def)

lemma handled_ok: "handled (0, dev, calls) = (Inr 1, dev, calls @ [Input_sync])"
  by (simp add: handled_def)


subsection \<open>The two merging handlers\<close>

lemma buttons_event_group:
  "type_buttons evt = 1 \<Longrightarrow>
   veikk_buttons_event evt dev =
     (0,
      dev\<lparr>buttons_state :=
            (if pressed_buttons evt \<noteq> 0
             then buttons_state dev OR get_unaligned_le16 (btns_buttons evt)
             else buttons_state dev AND NOT (get_unaligned_le16 (btns_buttons evt)))\<rparr>,
      report_buttons
        (if pressed_buttons evt \<noteq> 0
         then buttons_state dev OR get_unaligned_le16 (btns_buttons evt)
         else buttons_state dev AND NOT (get_unaligned_le16 (btns_buttons evt)))
        (wheel_state dev))"
  by (simp add: veikk_buttons_event_def Let_def u16_or u16_andnot)

lemma buttons_event_wheel:
  "type_buttons evt \<noteq> 1 \<Longrightarrow>
   veikk_buttons_event evt dev =
     (0,
      dev\<lparr>wheel_state :=
            (if pressed_buttons evt \<noteq> 0
             then wheel_state dev OR ucast (get_unaligned_le16 (btns_buttons evt))
             else wheel_state dev AND NOT (ucast (get_unaligned_le16 (btns_buttons evt))))\<rparr>,
      report_buttons (buttons_state dev)
        (if pressed_buttons evt \<noteq> 0
         then wheel_state dev OR ucast (get_unaligned_le16 (btns_buttons evt))
         else wheel_state dev AND NOT (ucast (get_unaligned_le16 (btns_buttons evt)))))"
  by (simp add: veikk_buttons_event_def Let_def wheel_or wheel_andnot)

lemma pad_event:
  "veikk_pad_event evt dev =
     (0,
      dev\<lparr>pad_state :=
            (if pressed_pad evt \<noteq> 0 then pad_state dev OR btns_pad evt
             else pad_state dev AND NOT (btns_pad evt))\<rparr>,
      report_pad
        (if pressed_pad evt \<noteq> 0 then pad_state dev OR btns_pad evt
         else pad_state dev AND NOT (btns_pad evt)))"
  by (simp add: veikk_pad_event_def Let_def u8_or u8_andnot)

lemma raw_buttons_group:
  assumes "length data = 9" and "data ! 1 = 0x42" and "data ! 2 = 1"
  shows "veikk_raw_event dev 9 data =
     (Inr 1,
      dev\<lparr>buttons_state :=
            (if data ! 3 \<noteq> 0
             then buttons_state dev OR get_unaligned_le16 (data ! 4, data ! 5)
             else buttons_state dev AND NOT (get_unaligned_le16 (data ! 4, data ! 5)))\<rparr>,
      report_buttons
        (if data ! 3 \<noteq> 0
         then buttons_state dev OR get_unaligned_le16 (data ! 4, data ! 5)
         else buttons_state dev AND NOT (get_unaligned_le16 (data ! 4, data ! 5)))
        (wheel_state dev) @ [Input_sync])"
  using assms by (simp add: raw_buttons buttons_event_group handled_ok)

lemma raw_buttons_wheel:
  assumes "length data = 9" and "data ! 1 = 0x42" and "data ! 2 \<noteq> 1"
  shows "veikk_raw_event dev 9 data =
     (Inr 1,
      dev\<lparr>wheel_state :=
            (if data ! 3 \<noteq> 0
             then wheel_state dev OR ucast (get_unaligned_le16 (data ! 4, data ! 5))
             else wheel_state dev AND NOT (ucast (get_unaligned_le16 (data ! 4, data ! 5))))\<rparr>,
      report_buttons (buttons_state dev)
        (if data ! 3 \<noteq> 0
         then wheel_state dev OR ucast (get_unaligned_le16 (data ! 4, data ! 5))
         else wheel_state dev AND NOT (ucast (get_unaligned_le16 (data ! 4, data ! 5))))
        @ [Input_sync])"
  using assms by (simp add: raw_buttons buttons_event_wheel handled_ok)

lemma raw_pad_merge:
  assumes "length data = 9" and "data ! 1 = 0x43"
  shows "veikk_raw_event dev 9 data =
     (Inr 1,
      dev\<lparr>pad_state :=
            (if data ! 2 \<noteq> 0 then pad_state dev OR data ! 3
             else pad_state dev AND NOT (data ! 3))\<rparr>,
      report_pad
        (if data ! 2 \<noteq> 0 then pad_state dev OR data ! 3
         else pad_state dev AND NOT (data ! 3)) @ [Input_sync])"
  using assms by (simp add: raw_pad pad_event handled_ok)

section \<open>The claims\<close>

text \<open>
  C1. A buttons report (type \<^verbatim>\<open>0x42\<close>) or a pad report (type \<^verbatim>\<open>0x43\<close>) merges its
  bitmask \<open>m\<close> into the bitmap \<open>S\<close> it selects: \<open>S OR m\<close> when the pressed byte is not
  zero, \<open>S AND NOT m\<close> when it is zero. In a buttons report \<open>m\<close> is byte 4 plus 256 times
  byte 5; in a pad report it is byte 3. For the wheel bitmap, which is eight bits wide,
  the sixteen-bit result is stored into the eight-bit field. Every key call of the report,
  listed here one by one, carries the bitmap of the device after the update masked with
  the bit of that key. On a freshly probed device the button report with pressed byte 1
  and mask \<^verbatim>\<open>0x0001\<close> leaves \<^verbatim>\<open>buttons_state = 0x0001\<close>, reports \<^verbatim>\<open>BTN_0\<close> with a
  non-zero value and every other key with zero.
\<close>

theorem merge_then_report:
  assumes "length data = 9"
  shows
    "(data ! 1 = 0x42 \<and> data ! 2 = 1 \<longrightarrow>
        buttons_state (dev_of (veikk_raw_event dev 9 data)) =
          (if data ! 3 \<noteq> 0
           then buttons_state dev OR (ucast (data ! 4) + 256 * ucast (data ! 5))
           else buttons_state dev AND NOT (ucast (data ! 4) + 256 * ucast (data ! 5))))
     \<and> (data ! 1 = 0x42 \<and> data ! 2 \<noteq> 1 \<longrightarrow>
        wheel_state (dev_of (veikk_raw_event dev 9 data)) =
          (if data ! 3 \<noteq> 0
           then ucast (ucast (wheel_state dev)
                       OR (ucast (data ! 4) + 256 * ucast (data ! 5) :: 16 word))
           else ucast (ucast (wheel_state dev)
                       AND NOT (ucast (data ! 4) + 256 * ucast (data ! 5) :: 16 word))))
     \<and> (data ! 1 = 0x43 \<longrightarrow>
        pad_state (dev_of (veikk_raw_event dev 9 data)) =
          (if data ! 2 \<noteq> 0 then pad_state dev OR data ! 3
           else pad_state dev AND NOT (data ! 3)))
     \<and> (data ! 1 = 0x42 \<longrightarrow>
        calls_of (veikk_raw_event dev 9 data) =
          [Input_report_key BTN_0
             (uint (buttons_state (dev_of (veikk_raw_event dev 9 data)) AND 0x001)),
           Input_report_key BTN_1
             (uint (buttons_state (dev_of (veikk_raw_event dev 9 data)) AND 0x002)),
           Input_report_key BTN_2
             (uint (buttons_state (dev_of (veikk_raw_event dev 9 data)) AND 0x004)),
           Input_report_key BTN_3
             (uint (buttons_state (dev_of (veikk_raw_event dev 9 data)) AND 0x008)),
           Input_report_key BTN_4
             (uint (buttons_state (dev_of (veikk_raw_event dev 9 data)) AND 0x010)),
           Input_report_key BTN_5
             (uint (buttons_state (dev_of (veikk_raw_event dev 9 data)) AND 0x020)),
           Input_report_key BTN_6
             (uint (buttons_state (dev_of (veikk_raw_event dev 9 data)) AND 0x040)),
           Input_report_key BTN_7
             (uint (buttons_state (dev_of (veikk_raw_event dev 9 data)) AND 0x080)),
           Input_report_key BTN_8
             (uint (buttons_state (dev_of (veikk_raw_event dev 9 data)) AND 0x100)),
           Input_report_key BTN_9
             (uint (buttons_state (dev_of (veikk_raw_event dev 9 data)) AND 0x200)),
           Input_report_key KEY_0x118
             (uint (buttons_state (dev_of (veikk_raw_event dev 9 data)) AND 0x400)),
           Input_report_key KEY_0x119
             (uint (buttons_state (dev_of (veikk_raw_event dev 9 data)) AND 0x800)),
           Input_report_key BTN_WHEEL
             (uint (buttons_state (dev_of (veikk_raw_event dev 9 data)) AND 0x1000)),
           Input_report_key BTN_GEAR_DOWN
             (uint (wheel_state (dev_of (veikk_raw_event dev 9 data)) AND 0x1)),
           Input_report_key BTN_GEAR_UP
             (uint (wheel_state (dev_of (veikk_raw_event dev 9 data)) AND 0x2)),
           Input_sync])
     \<and> (data ! 1 = 0x43 \<longrightarrow>
        calls_of (veikk_raw_event dev 9 data) =
          [Input_report_key BTN_NORTH
             (uint (pad_state (dev_of (veikk_raw_event dev 9 data)) AND 0x01)),
           Input_report_key BTN_SOUTH
             (uint (pad_state (dev_of (veikk_raw_event dev 9 data)) AND 0x02)),
           Input_report_key BTN_WEST
             (uint (pad_state (dev_of (veikk_raw_event dev 9 data)) AND 0x04)),
           Input_report_key BTN_EAST
             (uint (pad_state (dev_of (veikk_raw_event dev 9 data)) AND 0x08)),
           Input_report_key BTN_TOOL_DOUBLETAP
             (uint (pad_state (dev_of (veikk_raw_event dev 9 data)) AND 0x10)),
           Input_sync])
     \<and> veikk_raw_event (veikk_probe_device mdl) 9 [9, 0x42, 1, 1, 0x01, 0x00, u, v, w] =
         (Inr 1, (veikk_probe_device mdl)\<lparr>buttons_state := 0x0001\<rparr>,
          [Input_report_key BTN_0 1, Input_report_key BTN_1 0, Input_report_key BTN_2 0,
           Input_report_key BTN_3 0, Input_report_key BTN_4 0, Input_report_key BTN_5 0,
           Input_report_key BTN_6 0, Input_report_key BTN_7 0, Input_report_key BTN_8 0,
           Input_report_key BTN_9 0, Input_report_key KEY_0x118 0,
           Input_report_key KEY_0x119 0, Input_report_key BTN_WHEEL 0,
           Input_report_key BTN_GEAR_DOWN 0, Input_report_key BTN_GEAR_UP 0, Input_sync])"
proof -
  have group: "data ! 1 = 0x42 \<and> data ! 2 = 1 \<longrightarrow>
        buttons_state (dev_of (veikk_raw_event dev 9 data)) =
          (if data ! 3 \<noteq> 0
           then buttons_state dev OR (ucast (data ! 4) + 256 * ucast (data ! 5))
           else buttons_state dev AND NOT (ucast (data ! 4) + 256 * ucast (data ! 5)))"
    using assms by (simp add: raw_buttons_group dev_of_def le16_sum)
  have wheel: "data ! 1 = 0x42 \<and> data ! 2 \<noteq> 1 \<longrightarrow>
        wheel_state (dev_of (veikk_raw_event dev 9 data)) =
          (if data ! 3 \<noteq> 0
           then ucast (ucast (wheel_state dev)
                       OR (ucast (data ! 4) + 256 * ucast (data ! 5) :: 16 word))
           else ucast (ucast (wheel_state dev)
                       AND NOT (ucast (data ! 4) + 256 * ucast (data ! 5) :: 16 word)))"
    using assms
    by (simp add: raw_buttons_wheel dev_of_def or_narrow andnot_narrow flip: le16_sum)
  have pad: "data ! 1 = 0x43 \<longrightarrow>
        pad_state (dev_of (veikk_raw_event dev 9 data)) =
          (if data ! 2 \<noteq> 0 then pad_state dev OR data ! 3
           else pad_state dev AND NOT (data ! 3))"
    using assms by (simp add: raw_pad_merge dev_of_def)
  have bcalls: "data ! 1 = 0x42 \<longrightarrow>
        calls_of (veikk_raw_event dev 9 data) =
          report_buttons (buttons_state (dev_of (veikk_raw_event dev 9 data)))
                         (wheel_state (dev_of (veikk_raw_event dev 9 data)))
          @ [Input_sync]"
  proof (cases "data ! 2 = 1")
    case True
    with assms show ?thesis
      by (simp add: raw_buttons_group dev_of_def calls_of_def)
  next
    case False
    with assms show ?thesis
      by (simp add: raw_buttons_wheel dev_of_def calls_of_def)
  qed
  have pcalls: "data ! 1 = 0x43 \<longrightarrow>
        calls_of (veikk_raw_event dev 9 data) =
          report_pad (pad_state (dev_of (veikk_raw_event dev 9 data))) @ [Input_sync]"
    using assms by (simp add: raw_pad_merge dev_of_def calls_of_def)
  have le: "get_unaligned_le16 (0x01, 0x00) = 1"
    by (simp add: get_unaligned_le16_def)
  have fresh:
    "veikk_raw_event (veikk_probe_device mdl) 9 [9, 0x42, 1, 1, 0x01, 0x00, u, v, w] =
         (Inr 1, (veikk_probe_device mdl)\<lparr>buttons_state := 0x0001\<rparr>,
          [Input_report_key BTN_0 1, Input_report_key BTN_1 0, Input_report_key BTN_2 0,
           Input_report_key BTN_3 0, Input_report_key BTN_4 0, Input_report_key BTN_5 0,
           Input_report_key BTN_6 0, Input_report_key BTN_7 0, Input_report_key BTN_8 0,
           Input_report_key BTN_9 0, Input_report_key KEY_0x118 0,
           Input_report_key KEY_0x119 0, Input_report_key BTN_WHEEL 0,
           Input_report_key BTN_GEAR_DOWN 0, Input_report_key BTN_GEAR_UP 0, Input_sync])"
    by (simp add: raw_buttons_group le veikk_probe_device_def report_buttons_def)
  from group wheel pad bcalls pcalls fresh show ?thesis
    by (simp only: report_buttons_def report_pad_def append.simps)
qed

theorem merge_then_report_witness:
  "buttons_state (dev_of (veikk_raw_event
      ((veikk_probe_device veikk_model_0x0002)\<lparr>buttons_state := 0x1203\<rparr>) 9
      [9, 0x42, 1, 0, 0x01, 0x02, 0, 0, 0])) = 0x1002
   \<and> calls_of (veikk_raw_event
      ((veikk_probe_device veikk_model_0x0002)\<lparr>buttons_state := 0x1203\<rparr>) 9
      [9, 0x42, 1, 0, 0x01, 0x02, 0, 0, 0]) =
     [Input_report_key BTN_0 0, Input_report_key BTN_1 2, Input_report_key BTN_2 0,
      Input_report_key BTN_3 0, Input_report_key BTN_4 0, Input_report_key BTN_5 0,
      Input_report_key BTN_6 0, Input_report_key BTN_7 0, Input_report_key BTN_8 0,
      Input_report_key BTN_9 0, Input_report_key KEY_0x118 0, Input_report_key KEY_0x119 0,
      Input_report_key BTN_WHEEL 4096,
      Input_report_key BTN_GEAR_DOWN 0, Input_report_key BTN_GEAR_UP 0, Input_sync]
   \<and> wheel_state (dev_of (veikk_raw_event
      ((veikk_probe_device veikk_model_0x0002)\<lparr>buttons_state := 0x0a50, wheel_state := 0x01\<rparr>)
      9 [9, 0x42, 3, 1, 0x02, 0xff, 0, 0, 0])) = 0x03
   \<and> calls_of (veikk_raw_event
      ((veikk_probe_device veikk_model_0x0002)\<lparr>buttons_state := 0x0a50, wheel_state := 0x01\<rparr>)
      9 [9, 0x42, 3, 1, 0x02, 0xff, 0, 0, 0]) =
     [Input_report_key BTN_0 0, Input_report_key BTN_1 0, Input_report_key BTN_2 0,
      Input_report_key BTN_3 0, Input_report_key BTN_4 16, Input_report_key BTN_5 0,
      Input_report_key BTN_6 64, Input_report_key BTN_7 0, Input_report_key BTN_8 0,
      Input_report_key BTN_9 512, Input_report_key KEY_0x118 0,
      Input_report_key KEY_0x119 2048, Input_report_key BTN_WHEEL 0,
      Input_report_key BTN_GEAR_DOWN 1, Input_report_key BTN_GEAR_UP 2, Input_sync]
   \<and> pad_state (dev_of (veikk_raw_event
      ((veikk_probe_device veikk_model_0x0002)\<lparr>pad_state := 0x05\<rparr>) 9
      [9, 0x43, 1, 0x12, 0, 0, 0, 0, 0])) = 0x17
   \<and> calls_of (veikk_raw_event
      ((veikk_probe_device veikk_model_0x0002)\<lparr>pad_state := 0x05\<rparr>) 9
      [9, 0x43, 1, 0x12, 0, 0, 0, 0, 0]) =
     [Input_report_key BTN_NORTH 1, Input_report_key BTN_SOUTH 2,
      Input_report_key BTN_WEST 4, Input_report_key BTN_EAST 0,
      Input_report_key BTN_TOOL_DOUBLETAP 16, Input_sync]"
proof -
  note a = merge_then_report [of "[9, 0x42, 1, 0, 0x01, 0x02, 0, 0, 0]"
      "(veikk_probe_device veikk_model_0x0002)\<lparr>buttons_state := 0x1203\<rparr>"]
  note b = merge_then_report [of "[9, 0x42, 3, 1, 0x02, 0xff, 0, 0, 0]"
      "(veikk_probe_device veikk_model_0x0002)\<lparr>buttons_state := 0x0a50, wheel_state := 0x01\<rparr>"]
  note c = merge_then_report [of "[9, 0x43, 1, 0x12, 0, 0, 0, 0, 0]"
      "(veikk_probe_device veikk_model_0x0002)\<lparr>pad_state := 0x05\<rparr>"]
  have sa: "buttons_state (dev_of (veikk_raw_event
      ((veikk_probe_device veikk_model_0x0002)\<lparr>buttons_state := 0x1203\<rparr>) 9
      [9, 0x42, 1, 0, 0x01, 0x02, 0, 0, 0])) = 0x1002"
    using a by simp
  have wa: "wheel_state (dev_of (veikk_raw_event
      ((veikk_probe_device veikk_model_0x0002)\<lparr>buttons_state := 0x1203\<rparr>) 9
      [9, 0x42, 1, 0, 0x01, 0x02, 0, 0, 0])) = 0"
    by (simp add: raw_buttons_group dev_of_def veikk_probe_device_def)
  have sb: "wheel_state (dev_of (veikk_raw_event
      ((veikk_probe_device veikk_model_0x0002)\<lparr>buttons_state := 0x0a50, wheel_state := 0x01\<rparr>)
      9 [9, 0x42, 3, 1, 0x02, 0xff, 0, 0, 0])) = 0x03"
    using b by simp
  have bb: "buttons_state (dev_of (veikk_raw_event
      ((veikk_probe_device veikk_model_0x0002)\<lparr>buttons_state := 0x0a50, wheel_state := 0x01\<rparr>)
      9 [9, 0x42, 3, 1, 0x02, 0xff, 0, 0, 0])) = 0x0a50"
    by (simp add: raw_buttons_wheel dev_of_def)
  have sc: "pad_state (dev_of (veikk_raw_event
      ((veikk_probe_device veikk_model_0x0002)\<lparr>pad_state := 0x05\<rparr>) 9
      [9, 0x43, 1, 0x12, 0, 0, 0, 0, 0])) = 0x17"
    using c by simp
  show ?thesis
    using a b c by (simp add: sa wa sb bb sc)
qed

text \<open>
  C2. In a buttons report the sub-type byte selects one of two bitmaps. With sub-type 1
  only \<^verbatim>\<open>buttons_state\<close> may change and \<^verbatim>\<open>wheel_state\<close> keeps its value; with any other
  sub-type only \<^verbatim>\<open>wheel_state\<close> may change and \<^verbatim>\<open>buttons_state\<close> keeps its value. In both
  cases \<^verbatim>\<open>pad_state\<close> keeps its value.
\<close>

theorem domains_independent:
  assumes "length data = 9" and "data ! 1 = 0x42"
  shows
    "(data ! 2 = 1 \<longrightarrow>
        wheel_state (dev_of (veikk_raw_event dev 9 data)) = wheel_state dev
        \<and> dev_of (veikk_raw_event dev 9 data) =
            dev\<lparr>buttons_state := buttons_state (dev_of (veikk_raw_event dev 9 data))\<rparr>)
     \<and> (data ! 2 \<noteq> 1 \<longrightarrow>
        buttons_state (dev_of (veikk_raw_event dev 9 data)) = buttons_state dev
        \<and> dev_of (veikk_raw_event dev 9 data) =
            dev\<lparr>wheel_state := wheel_state (dev_of (veikk_raw_event dev 9 data))\<rparr>)
     \<and> pad_state (dev_of (veikk_raw_event dev 9 data)) = pad_state dev"
proof (cases "data ! 2 = 1")
  case True
  with assms show ?thesis
    by (simp add: raw_buttons_group dev_of_def)
next
  case False
  with assms show ?thesis
    by (simp add: raw_buttons_wheel dev_of_def)
qed

theorem domains_independent_witness:
  "wheel_state (dev_of (veikk_raw_event
      ((veikk_probe_device veikk_model_0x0002)\<lparr>wheel_state := 0x01, pad_state := 0x04\<rparr>) 9
      [9, 0x42, 1, 1, 0xff, 0xff, 0, 0, 0])) = 0x01
   \<and> pad_state (dev_of (veikk_raw_event
      ((veikk_probe_device veikk_model_0x0002)\<lparr>wheel_state := 0x01, pad_state := 0x04\<rparr>) 9
      [9, 0x42, 1, 1, 0xff, 0xff, 0, 0, 0])) = 0x04
   \<and> buttons_state (dev_of (veikk_raw_event
      ((veikk_probe_device veikk_model_0x0002)\<lparr>buttons_state := 0x1234\<rparr>) 9
      [9, 0x42, 3, 0, 0xff, 0xff, 0, 0, 0])) = 0x1234"
  using domains_independent [of "[9, 0x42, 1, 1, 0xff, 0xff, 0, 0, 0]"
          "(veikk_probe_device veikk_model_0x0002)\<lparr>wheel_state := 0x01, pad_state := 0x04\<rparr>"]
        domains_independent [of "[9, 0x42, 3, 0, 0xff, 0xff, 0, 0, 0]"
          "(veikk_probe_device veikk_model_0x0002)\<lparr>buttons_state := 0x1234\<rparr>"]
  by (simp add: veikk_probe_device_def)

text \<open>
  C3, as stated, does not hold. The claim counts thirteen button events and, besides them,
  a wheel-centre event computed from the wheel bitmap. The driver reports fifteen keys:
  the wheel-centre key \<^verbatim>\<open>BTN_WHEEL\<close> is the thirteenth, and its value is bit 12 of
  \<^verbatim>\<open>buttons_state\<close>. Below, the same wheel report is applied to a fresh device and to
  one on which the wheel centre was pressed before: the wheel bitmaps agree before and
  after, the values of \<^verbatim>\<open>BTN_WHEEL\<close> differ, and each list has fifteen key calls.
\<close>

theorem wheel_center_counterexample:
  "calls_of (veikk_raw_event
      (dev_of (veikk_raw_event (veikk_probe_device veikk_model_0x0002) 9
                 [9, 0x42, 1, 1, 0x00, 0x10, 0, 0, 0])) 9
      [9, 0x42, 3, 1, 0x01, 0x00, 0, 0, 0]) =
     [Input_report_key BTN_0 0, Input_report_key BTN_1 0, Input_report_key BTN_2 0,
      Input_report_key BTN_3 0, Input_report_key BTN_4 0, Input_report_key BTN_5 0,
      Input_report_key BTN_6 0, Input_report_key BTN_7 0, Input_report_key BTN_8 0,
      Input_report_key BTN_9 0, Input_report_key KEY_0x118 0, Input_report_key KEY_0x119 0,
      Input_report_key BTN_WHEEL 4096,
      Input_report_key BTN_GEAR_DOWN 1, Input_report_key BTN_GEAR_UP 0, Input_sync]
   \<and> calls_of (veikk_raw_event (veikk_probe_device veikk_model_0x0002) 9
      [9, 0x42, 3, 1, 0x01, 0x00, 0, 0, 0]) =
     [Input_report_key BTN_0 0, Input_report_key BTN_1 0, Input_report_key BTN_2 0,
      Input_report_key BTN_3 0, Input_report_key BTN_4 0, Input_report_key BTN_5 0,
      Input_report_key BTN_6 0, Input_report_key BTN_7 0, Input_report_key BTN_8 0,
      Input_report_key BTN_9 0, Input_report_key KEY_0x118 0, Input_report_key KEY_0x119 0,
      Input_report_key BTN_WHEEL 0,
      Input_report_key BTN_GEAR_DOWN 1, Input_report_key BTN_GEAR_UP 0, Input_sync]
   \<and> wheel_state (dev_of (veikk_raw_event (veikk_probe_device veikk_model_0x0002) 9
                 [9, 0x42, 1, 1, 0x00, 0x10, 0, 0, 0])) = 0
   \<and> wheel_state (veikk_probe_device veikk_model_0x0002) = 0
   \<and> wheel_state (dev_of (veikk_raw_event
      (dev_of (veikk_raw_event (veikk_probe_device veikk_model_0x0002) 9
                 [9, 0x42, 1, 1, 0x00, 0x10, 0, 0, 0])) 9
      [9, 0x42, 3, 1, 0x01, 0x00, 0, 0, 0])) = 1
   \<and> wheel_state (dev_of (veikk_raw_event (veikk_probe_device veikk_model_0x0002) 9
      [9, 0x42, 3, 1, 0x01, 0x00, 0, 0, 0])) = 1"
proof -
  have le: "get_unaligned_le16 (0x00, 0x10) = 0x1000" "get_unaligned_le16 (0x01, 0x00) = 1"
    by (simp_all add: get_unaligned_le16_def)
  show ?thesis
    by (simp add: raw_buttons_group raw_buttons_wheel le veikk_probe_device_def
        report_buttons_def dev_of_def calls_of_def)
qed

text \<open>
  C3, amended. After every buttons report, whichever bitmap it updated, the driver reports
  exactly fifteen keys and then synchronises: the twelve numbered buttons and the
  wheel-centre key from bits 0 to 12 of the persisted \<^verbatim>\<open>buttons_state\<close>, and the two
  wheel-direction keys from bits 0 and 1 of the persisted \<^verbatim>\<open>wheel_state\<close>.
\<close>

theorem buttons_frame_reports:
  assumes "length data = 9" and "data ! 1 = 0x42"
  shows
    "calls_of (veikk_raw_event dev 9 data) =
       [Input_report_key BTN_0
          (if bit (buttons_state (dev_of (veikk_raw_event dev 9 data))) 0 then 1 else 0),
        Input_report_key BTN_1
          (if bit (buttons_state (dev_of (veikk_raw_event dev 9 data))) 1 then 2 else 0),
        Input_report_key BTN_2
          (if bit (buttons_state (dev_of (veikk_raw_event dev 9 data))) 2 then 4 else 0),
        Input_report_key BTN_3
          (if bit (buttons_state (dev_of (veikk_raw_event dev 9 data))) 3 then 8 else 0),
        Input_report_key BTN_4
          (if bit (buttons_state (dev_of (veikk_raw_event dev 9 data))) 4 then 16 else 0),
        Input_report_key BTN_5
          (if bit (buttons_state (dev_of (veikk_raw_event dev 9 data))) 5 then 32 else 0),
        Input_report_key BTN_6
          (if bit (buttons_state (dev_of (veikk_raw_event dev 9 data))) 6 then 64 else 0),
        Input_report_key BTN_7
          (if bit (buttons_state (dev_of (veikk_raw_event dev 9 data))) 7 then 128 else 0),
        Input_report_key BTN_8
          (if bit (buttons_state (dev_of (veikk_raw_event dev 9 data))) 8 then 256 else 0),
        Input_report_key BTN_9
          (if bit (buttons_state (dev_of (veikk_raw_event dev 9 data))) 9 then 512 else 0),
        Input_report_key KEY_0x118
          (if bit (buttons_state (dev_of (veikk_raw_event dev 9 data))) 10 then 1024 else 0),
        Input_report_key KEY_0x119
          (if bit (buttons_state (dev_of (veikk_raw_event dev 9 data))) 11 then 2048 else 0),
        Input_report_key BTN_WHEEL
          (if bit (buttons_state (dev_of (veikk_raw_event dev 9 data))) 12 then 4096 else 0),
        Input_report_key BTN_GEAR_DOWN
          (if bit (wheel_state (dev_of (veikk_raw_event dev 9 data))) 0 then 1 else 0),
        Input_report_key BTN_GEAR_UP
          (if bit (wheel_state (dev_of (veikk_raw_event dev 9 data))) 1 then 2 else 0),
        Input_sync]"
proof -
  have "calls_of (veikk_raw_event dev 9 data) =
          report_buttons (buttons_state (dev_of (veikk_raw_event dev 9 data)))
                         (wheel_state (dev_of (veikk_raw_event dev 9 data)))
          @ [Input_sync]"
  proof (cases "data ! 2 = 1")
    case True
    with assms show ?thesis
      by (simp add: raw_buttons_group dev_of_def calls_of_def)
  next
    case False
    with assms show ?thesis
      by (simp add: raw_buttons_wheel dev_of_def calls_of_def)
  qed
  then show ?thesis
    by (simp only: report_buttons_def uint16_and_bit uint_and_bit0 uint_and_bit1
        append.simps)
qed

theorem buttons_frame_reports_witness:
  "calls_of (veikk_raw_event
      ((veikk_probe_device veikk_model_0x0002)\<lparr>buttons_state := 0x1000\<rparr>) 9
      [9, 0x42, 3, 1, 0x01, 0x00, 0, 0, 0]) =
     [Input_report_key BTN_0 0, Input_report_key BTN_1 0, Input_report_key BTN_2 0,
      Input_report_key BTN_3 0, Input_report_key BTN_4 0, Input_report_key BTN_5 0,
      Input_report_key BTN_6 0, Input_report_key BTN_7 0, Input_report_key BTN_8 0,
      Input_report_key BTN_9 0, Input_report_key KEY_0x118 0, Input_report_key KEY_0x119 0,
      Input_report_key BTN_WHEEL 4096,
      Input_report_key BTN_GEAR_DOWN 1, Input_report_key BTN_GEAR_UP 0, Input_sync]"
proof -
  have le: "get_unaligned_le16 (0x01, 0x00) = 1"
    by (simp add: get_unaligned_le16_def)
  have d: "dev_of (veikk_raw_event
      ((veikk_probe_device veikk_model_0x0002)\<lparr>buttons_state := 0x1000\<rparr>) 9
      [9, 0x42, 3, 1, 0x01, 0x00, 0, 0, 0]) =
      (veikk_probe_device veikk_model_0x0002)\<lparr>buttons_state := 0x1000, wheel_state := 1\<rparr>"
    by (simp add: raw_buttons_wheel le dev_of_def veikk_probe_device_def)
  have b: "\<not> bit (0x1000 :: 16 word) 0" "\<not> bit (0x1000 :: 16 word) 1"
    "\<not> bit (0x1000 :: 16 word) 2" "\<not> bit (0x1000 :: 16 word) 3"
    "\<not> bit (0x1000 :: 16 word) 4" "\<not> bit (0x1000 :: 16 word) 5"
    "\<not> bit (0x1000 :: 16 word) 6" "\<not> bit (0x1000 :: 16 word) 7"
    "\<not> bit (0x1000 :: 16 word) 8" "\<not> bit (0x1000 :: 16 word) 9"
    "\<not> bit (0x1000 :: 16 word) 10" "\<not> bit (0x1000 :: 16 word) 11"
    "bit (0x1000 :: 16 word) 12" "bit (1 :: 8 word) 0" "\<not> bit (1 :: 8 word) 1"
    by (simp_all add: bit_iff_odd drop_bit_eq_div)
  show ?thesis
    using buttons_frame_reports [of "[9, 0x42, 3, 1, 0x01, 0x00, 0, 0, 0]"
            "(veikk_probe_device veikk_model_0x0002)\<lparr>buttons_state := 0x1000\<rparr>"]
    by (simp add: d b)
qed

text \<open>
  C4. A report whose id is not 9, or whose size is not 9 bytes, is rejected with
  \<^verbatim>\<open>-EINVAL\<close>: no call reaches the input device, so no event is reported and nothing
  is flushed, and the device descriptor that comes back is the one that went in, with its
  model and its three bitmaps. The tag the driver tests is \<^verbatim>\<open>report->id\<close>; the second
  part takes it from the leading byte of the data, as the HID core does for numbered
  reports.
\<close>

theorem malformed_frame_rejected:
  "(report_id \<noteq> 9 \<or> length data \<noteq> 9 \<longrightarrow>
      veikk_raw_event dev report_id data = (Inl EINVAL, dev, []))
   \<and> (data \<noteq> [] \<and> data ! 0 \<noteq> 9 \<longrightarrow>
      veikk_raw_event dev (ucast (data ! 0)) data = (Inl EINVAL, dev, []))"
proof (intro conjI impI)
  assume "report_id \<noteq> 9 \<or> length data \<noteq> 9"
  then show "veikk_raw_event dev report_id data = (Inl EINVAL, dev, [])"
    by (rule raw_reject)
next
  assume a: "data \<noteq> [] \<and> data ! 0 \<noteq> 9"
  have "(ucast (data ! 0) :: 32 word) \<noteq> 9"
  proof
    assume "(ucast (data ! 0) :: 32 word) = 9"
    then have "(ucast (ucast (data ! 0) :: 32 word) :: 8 word) = ucast (9 :: 32 word)"
      by simp
    then have "data ! 0 = 9"
      by (simp add: ucast_up_ucast_id is_up)
    with a show False by simp
  qed
  then show "veikk_raw_event dev (ucast (data ! 0)) data = (Inl EINVAL, dev, [])"
    by (simp add: raw_reject)
qed

theorem malformed_frame_rejected_witness:
  "veikk_raw_event (veikk_probe_device veikk_model_0x0002) 9 [9, 0x42, 1, 1, 1, 0, 0, 0]
     = (Inl EINVAL, veikk_probe_device veikk_model_0x0002, [])
   \<and> veikk_raw_event (veikk_probe_device veikk_model_0x0002) 8 [8, 0x42, 1, 1, 1, 0, 0, 0, 0]
     = (Inl EINVAL, veikk_probe_device veikk_model_0x0002, [])
   \<and> veikk_raw_event (veikk_probe_device veikk_model_0x0002) (ucast (8 :: 8 word))
        [8, 0x42, 1, 1, 1, 0, 0, 0, 0]
     = (Inl EINVAL, veikk_probe_device veikk_model_0x0002, [])"
  using malformed_frame_rejected
          [of 9 "[9, 0x42, 1, 1, 1, 0, 0, 0]" "veikk_probe_device veikk_model_0x0002"]
        malformed_frame_rejected
          [of 8 "[8, 0x42, 1, 1, 1, 0, 0, 0, 0]" "veikk_probe_device veikk_model_0x0002"]
  by simp

text \<open>
  C5. A pen report (type \<^verbatim>\<open>0x41\<close>) reports x, y and pressure as the unsigned
  little-endian values of its three two-byte fields, each of the 65536 values as it is,
  whatever the maxima of the model; the three stylus keys carry bits 0, 1 and 2 of the
  flags byte. The calls do not depend on the device descriptor, which is returned
  unchanged.
\<close>

theorem pen_frame_decoded:
  assumes "length data = 9" and "data ! 1 = 0x41"
  shows "veikk_raw_event dev 9 data =
           (Inr 1, dev,
            [Input_report_abs ABS_X (uint (data ! 3) + 256 * uint (data ! 4)),
             Input_report_abs ABS_Y (uint (data ! 5) + 256 * uint (data ! 6)),
             Input_report_abs ABS_PRESSURE (uint (data ! 7) + 256 * uint (data ! 8)),
             Input_report_key BTN_TOUCH (if bit (data ! 2) 0 then 1 else 0),
             Input_report_key BTN_STYLUS (if bit (data ! 2) 1 then 2 else 0),
             Input_report_key BTN_STYLUS2 (if bit (data ! 2) 2 then 4 else 0),
             Input_sync])"
  using assms
  by (simp only: raw_pen veikk_pen_event_def handled_ok veikk_pen_report_data.simps
      le16_uint uint_and_bit0 uint_and_bit1 uint_and_bit2 append.simps
      numeral_eq_one_iff refl)

theorem pen_frame_decoded_witness:
  "veikk_raw_event (veikk_probe_device veikk_model_0x0001) 9
     [9, 0x41, 5, 0x34, 0x12, 0xff, 0xff, 0x00, 0x80] =
     (Inr 1, veikk_probe_device veikk_model_0x0001,
      [Input_report_abs ABS_X 4660, Input_report_abs ABS_Y 65535,
       Input_report_abs ABS_PRESSURE 32768, Input_report_key BTN_TOUCH 1,
       Input_report_key BTN_STYLUS 0, Input_report_key BTN_STYLUS2 4, Input_sync])"
proof -
  have b: "bit (5 :: 8 word) 0" "\<not> bit (5 :: 8 word) 1" "bit (5 :: 8 word) 2"
    by (simp_all add: bit_iff_odd drop_bit_eq_div)
  show ?thesis
    using pen_frame_decoded [of "[9, 0x41, 5, 0x34, 0x12, 0xff, 0xff, 0x00, 0x80]"
            "veikk_probe_device veikk_model_0x0001"]
    by (simp add: b)
qed

text \<open>
  C6. A report with id 9 and nine bytes whose type is none of \<^verbatim>\<open>0x41\<close>, \<^verbatim>\<open>0x42\<close>,
  \<^verbatim>\<open>0x43\<close> returns 0, which is not an error, makes no call on the input device and
  returns the device descriptor unchanged. \<^verbatim>\<open>input_sync\<close> is called exactly once by a
  report that is accepted (return value 1), as its last call, and never by any other
  report.
\<close>

theorem unrecognized_ignored_flush_once:
  "(length data = 9 \<and> data ! 1 \<notin> {0x41, 0x42, 0x43} \<longrightarrow>
      veikk_raw_event dev 9 data = (Inr 0, dev, []))
   \<and> (ret_of (veikk_raw_event dev report_id data) = Inr 1
        \<longleftrightarrow> report_id = 9 \<and> length data = 9 \<and> data ! 1 \<in> {0x41, 0x42, 0x43})
   \<and> count_list (calls_of (veikk_raw_event dev report_id data)) Input_sync =
       (if ret_of (veikk_raw_event dev report_id data) = Inr 1 then 1 else 0)
   \<and> (ret_of (veikk_raw_event dev report_id data) = Inr 1 \<longrightarrow>
        last (calls_of (veikk_raw_event dev report_id data)) = Input_sync)"
proof -
  have unknown: "length data = 9 \<and> data ! 1 \<notin> {0x41, 0x42, 0x43} \<longrightarrow>
      veikk_raw_event dev 9 data = (Inr 0, dev, [])"
    by (simp add: raw_unknown)
  consider (bad) "report_id \<noteq> 9 \<or> length data \<noteq> 9"
    | (pen) "report_id = 9" "length data = 9" "data ! 1 = 0x41"
    | (buttons) "report_id = 9" "length data = 9" "data ! 1 = 0x42"
    | (pad) "report_id = 9" "length data = 9" "data ! 1 = 0x43"
    | (other) "report_id = 9" "length data = 9" "data ! 1 \<noteq> 0x41" "data ! 1 \<noteq> 0x42"
        "data ! 1 \<noteq> 0x43"
    by blast
  then have flush:
    "(ret_of (veikk_raw_event dev report_id data) = Inr 1
        \<longleftrightarrow> report_id = 9 \<and> length data = 9 \<and> data ! 1 \<in> {0x41, 0x42, 0x43})
     \<and> count_list (calls_of (veikk_raw_event dev report_id data)) Input_sync =
         (if ret_of (veikk_raw_event dev report_id data) = Inr 1 then 1 else 0)
     \<and> (ret_of (veikk_raw_event dev report_id data) = Inr 1 \<longrightarrow>
          last (calls_of (veikk_raw_event dev report_id data)) = Input_sync)"
  proof cases
    case bad
    then have "veikk_raw_event dev report_id data = (Inl EINVAL, dev, [])"
      by (rule raw_reject)
    with bad show ?thesis
      by (auto simp: ret_of_def calls_of_def)
  next
    case pen
    then show ?thesis
      by (simp add: raw_pen veikk_pen_event_def handled_ok ret_of_def calls_of_def)
  next
    case buttons
    then show ?thesis
      by (cases "data ! 2 = 1")
         (simp_all add: raw_buttons_group raw_buttons_wheel ret_of_def calls_of_def
            report_buttons_def)
  next
    case pad
    then show ?thesis
      by (simp add: raw_pad_merge ret_of_def calls_of_def report_pad_def)
  next
    case other
    then show ?thesis
      by (simp add: raw_unknown ret_of_def calls_of_def)
  qed
  show ?thesis
    by (rule conjI [OF unknown flush])
qed

theorem unrecognized_ignored_flush_once_witness:
  "veikk_raw_event (veikk_probe_device veikk_model_0x0003) 9
      [9, 0x44, 1, 1, 0xff, 0xff, 0, 0, 0] = (Inr 0, veikk_probe_device veikk_model_0x0003, [])
   \<and> count_list (calls_of (veikk_raw_event (veikk_probe_device veikk_model_0x0003) 9
        [9, 0x43, 1, 1, 0, 0, 0, 0, 0])) Input_sync = 1
   \<and> last (calls_of (veikk_raw_event (veikk_probe_device veikk_model_0x0003) 9
        [9, 0x43, 1, 1, 0, 0, 0, 0, 0])) = Input_sync"
  using unrecognized_ignored_flush_once [of "[9, 0x44, 1, 1, 0xff, 0xff, 0, 0, 0]"
          "veikk_probe_device veikk_model_0x0003" 9]
        unrecognized_ignored_flush_once [of "[9, 0x43, 1, 1, 0, 0, 0, 0, 0]"
          "veikk_probe_device veikk_model_0x0003" 9]
  by simp

text \<open>
  C7. Modifier hold: for two different bit positions \<open>A\<close> and \<open>B\<close> of
  \<^verbatim>\<open>buttons_state\<close>, a press report for bit \<open>A\<close>, then a press report for bit \<open>B\<close>, then
  a release report for bit \<open>B\<close> leave bit \<open>A\<close> set, from any starting state.
\<close>

theorem modifier_hold:
  assumes "A \<noteq> B" and "A < 16" and "B < 16" and "pa \<noteq> 0" and "pb \<noteq> 0"
  shows
    "bit (buttons_state
       (dev_of (veikk_raw_event
         (dev_of (veikk_raw_event
           (dev_of (veikk_raw_event dev 9
             [9, 0x42, 1, pa, ucast (2 ^ A :: 16 word), ucast (drop_bit 8 (2 ^ A :: 16 word)),
              u1, u2, u3])) 9
           [9, 0x42, 1, pb, ucast (2 ^ B :: 16 word), ucast (drop_bit 8 (2 ^ B :: 16 word)),
            v1, v2, v3])) 9
         [9, 0x42, 1, 0, ucast (2 ^ B :: 16 word), ucast (drop_bit 8 (2 ^ B :: 16 word)),
          w1, w2, w3]))) A"
  using assms
  by (simp add: raw_buttons_group le16_split dev_of_def bit_simps)

theorem modifier_hold_witness:
  "bit (buttons_state
       (dev_of (veikk_raw_event
         (dev_of (veikk_raw_event
           (dev_of (veikk_raw_event (veikk_probe_device veikk_model_0x0002) 9
             [9, 0x42, 1, 1, 0x00, 0x08, 0, 0, 0])) 9
           [9, 0x42, 1, 1, 0x04, 0x00, 0, 0, 0])) 9
         [9, 0x42, 1, 0, 0x04, 0x00, 0, 0, 0]))) 11"
proof -
  have e: "ucast (2 ^ 11 :: 16 word) = (0x00 :: 8 word)"
    "ucast (drop_bit 8 (2 ^ 11 :: 16 word)) = (0x08 :: 8 word)"
    "ucast (2 ^ 2 :: 16 word) = (0x04 :: 8 word)"
    "ucast (drop_bit 8 (2 ^ 2 :: 16 word)) = (0x00 :: 8 word)"
    by (simp_all add: drop_bit_eq_div)
  show ?thesis
    using modifier_hold [of 11 2 1 1 "veikk_probe_device veikk_model_0x0002" 0 0 0 0 0 0 0 0 0]
    by (simp only: e) simp
qed

text \<open>
  C8. Once the input device is allocated, set up and registered,
  \<^verbatim>\<open>veikk_allocate_setup_register_inputs\<close> schedules the pen work with delay 100, the
  buttons work with delay 200 exactly when \<^verbatim>\<open>has_buttons\<close> is set, and the pad work with
  delay 300 exactly when \<^verbatim>\<open>has_pad\<close> is set; no work is scheduled twice and the delays
  increase strictly in the order of the calls. A model without buttons and with a pad
  gets exactly the pen work and, later, the pad work.
\<close>

theorem activation_schedule:
  assumes "input_allocated" and "name_allocated" and "register_ret = 0"
  shows
    "fst (veikk_allocate_setup_register_inputs dev input_allocated name_allocated register_ret)
       = Inr 0
     \<and> (Veikk_setup_pen, 100) \<in> set (snd (veikk_allocate_setup_register_inputs dev
            input_allocated name_allocated register_ret))
     \<and> ((Veikk_setup_buttons, d) \<in> set (snd (veikk_allocate_setup_register_inputs dev
            input_allocated name_allocated register_ret))
          \<longleftrightarrow> has_buttons (model dev) \<noteq> 0 \<and> d = 200)
     \<and> ((Veikk_setup_pad, d) \<in> set (snd (veikk_allocate_setup_register_inputs dev
            input_allocated name_allocated register_ret))
          \<longleftrightarrow> has_pad (model dev) \<noteq> 0 \<and> d = 300)
     \<and> ((Veikk_setup_pen, d) \<in> set (snd (veikk_allocate_setup_register_inputs dev
            input_allocated name_allocated register_ret))
          \<longleftrightarrow> d = 100)
     \<and> distinct (map fst (snd (veikk_allocate_setup_register_inputs dev
            input_allocated name_allocated register_ret)))
     \<and> sorted_wrt (<) (map snd (snd (veikk_allocate_setup_register_inputs dev
            input_allocated name_allocated register_ret)))
     \<and> (has_buttons (model dev) = 0 \<and> has_pad (model dev) \<noteq> 0 \<longrightarrow>
          snd (veikk_allocate_setup_register_inputs dev
            input_allocated name_allocated register_ret)
          = [(Veikk_setup_pen, 100), (Veikk_setup_pad, 300)])"
  using assms
  by (simp add: veikk_allocate_setup_register_inputs_def veikk_setup_bundled_inputs_def
      veikk_register_input_def)

theorem activation_schedule_witness:
  "snd (veikk_allocate_setup_register_inputs
      (veikk_probe_device (veikk_model_0x0002\<lparr>has_buttons := 0\<rparr>)) True True 0)
     = [(Veikk_setup_pen, 100), (Veikk_setup_pad, 300)]
   \<and> (Veikk_setup_buttons, 200) \<in> set (snd (veikk_allocate_setup_register_inputs
      (veikk_probe_device veikk_model_0x1001) True True 0))
   \<and> (Veikk_setup_pad, 300) \<notin> set (snd (veikk_allocate_setup_register_inputs
      (veikk_probe_device veikk_model_0x1001) True True 0))"
  using activation_schedule [of True True 0
          "veikk_probe_device (veikk_model_0x0002\<lparr>has_buttons := 0\<rparr>)" 200]
        activation_schedule [of True True 0 "veikk_probe_device veikk_model_0x1001" 200]
        activation_schedule [of True True 0 "veikk_probe_device veikk_model_0x1001" 300]
  by (simp add: veikk_probe_device_def veikk_model_0x0002_def veikk_model_0x1001_def)

text \<open>
  C9, as stated, does not hold: byte 2 is not one value shared by the three commands. It
  is \<^verbatim>\<open>0x04\<close> in the pen command and \<^verbatim>\<open>0x02\<close> in the buttons and pad commands.
\<close>

theorem magic_byte_counterexample:
  "pen_output_report ! 2 = 0x04 \<and> buttons_output_report ! 2 = 0x02
   \<and> pad_output_report ! 2 = 0x02
   \<and> pen_output_report ! 2 \<noteq> buttons_output_report ! 2
   \<and> pen_output_report ! 2 \<noteq> pad_output_report ! 2"
  by (simp add: pen_output_report_def buttons_output_report_def pad_output_report_def)

text \<open>
  C9, amended. Each of the three activation commands is nine bytes: byte 0 is \<^verbatim>\<open>0x09\<close>,
  byte 1 selects the subsystem (1 pen, 2 buttons, 3 pad), byte 2 is \<^verbatim>\<open>0x04\<close> for the
  pen and \<^verbatim>\<open>0x02\<close> for the buttons and the pad, and bytes 3 to 8 are zero. Each work
  function sends its own command, whole.
\<close>

theorem activation_commands:
  "pen_output_report = [0x09, 0x01, 0x04] @ replicate 6 0
   \<and> buttons_output_report = [0x09, 0x02, 0x02] @ replicate 6 0
   \<and> pad_output_report = [0x09, 0x03, 0x02] @ replicate 6 0
   \<and> length pen_output_report = 9 \<and> length buttons_output_report = 9
   \<and> length pad_output_report = 9
   \<and> run_work True Veikk_setup_pen = (Inr 0, [pen_output_report])
   \<and> run_work True Veikk_setup_buttons = (Inr 0, [buttons_output_report])
   \<and> run_work True Veikk_setup_pad = (Inr 0, [pad_output_report])"
  by (simp add: pen_output_report_def buttons_output_report_def pad_output_report_def
      veikk_setup_feature_def numeral_eq_Suc)

text \<open>
  C10. In the wheel branch (sub-type other than 1) the sixteen-bit mask is merged into the
  eight-bit \<^verbatim>\<open>wheel_state\<close> modulo \<open>2 ^ 8\<close>: only its low byte, byte 4 of the report,
  takes part, and byte 5 is ignored. Of the resulting \<^verbatim>\<open>wheel_state\<close> only bits 0 and 1
  are reported, as the two wheel-direction keys; the thirteen keys before them are computed
  from \<^verbatim>\<open>buttons_state\<close>.
\<close>

theorem wheel_mask_truncated:
  assumes "length data = 9" and "data ! 1 = 0x42" and "data ! 2 \<noteq> 1"
  shows
    "wheel_state (dev_of (veikk_raw_event dev 9 data)) =
       (if data ! 3 \<noteq> 0
        then wheel_state dev OR ucast (get_unaligned_le16 (data ! 4, data ! 5))
        else wheel_state dev AND NOT (ucast (get_unaligned_le16 (data ! 4, data ! 5))))
     \<and> unat (ucast (get_unaligned_le16 (data ! 4, data ! 5)) :: 8 word) =
         unat (get_unaligned_le16 (data ! 4, data ! 5)) mod 2 ^ 8
     \<and> (ucast (get_unaligned_le16 (data ! 4, data ! 5)) :: 8 word) = data ! 4
     \<and> calls_of (veikk_raw_event dev 9 data) =
         [Input_report_key BTN_0 (uint (buttons_state dev AND 0x001)),
          Input_report_key BTN_1 (uint (buttons_state dev AND 0x002)),
          Input_report_key BTN_2 (uint (buttons_state dev AND 0x004)),
          Input_report_key BTN_3 (uint (buttons_state dev AND 0x008)),
          Input_report_key BTN_4 (uint (buttons_state dev AND 0x010)),
          Input_report_key BTN_5 (uint (buttons_state dev AND 0x020)),
          Input_report_key BTN_6 (uint (buttons_state dev AND 0x040)),
          Input_report_key BTN_7 (uint (buttons_state dev AND 0x080)),
          Input_report_key BTN_8 (uint (buttons_state dev AND 0x100)),
          Input_report_key BTN_9 (uint (buttons_state dev AND 0x200)),
          Input_report_key KEY_0x118 (uint (buttons_state dev AND 0x400)),
          Input_report_key KEY_0x119 (uint (buttons_state dev AND 0x800)),
          Input_report_key BTN_WHEEL (uint (buttons_state dev AND 0x1000)),
          Input_report_key BTN_GEAR_DOWN
            (if bit (wheel_state (dev_of (veikk_raw_event dev 9 data))) 0 then 1 else 0),
          Input_report_key BTN_GEAR_UP
            (if bit (wheel_state (dev_of (veikk_raw_event dev 9 data))) 1 then 2 else 0),
          Input_sync]"
proof (intro conjI)
  show "wheel_state (dev_of (veikk_raw_event dev 9 data)) =
       (if data ! 3 \<noteq> 0
        then wheel_state dev OR ucast (get_unaligned_le16 (data ! 4, data ! 5))
        else wheel_state dev AND NOT (ucast (get_unaligned_le16 (data ! 4, data ! 5))))"
    using assms by (simp add: raw_buttons_wheel dev_of_def)
next
  show "unat (ucast (get_unaligned_le16 (data ! 4, data ! 5)) :: 8 word) =
         unat (get_unaligned_le16 (data ! 4, data ! 5)) mod 2 ^ 8"
    by (simp add: unsigned_ucast_eq take_bit_eq_mod)
next
  show "(ucast (get_unaligned_le16 (data ! 4, data ! 5)) :: 8 word) = data ! 4"
    by (rule le16_low)
next
  have "calls_of (veikk_raw_event dev 9 data) =
          report_buttons (buttons_state dev) (wheel_state (dev_of (veikk_raw_event dev 9 data)))
          @ [Input_sync]"
    using assms by (simp add: raw_buttons_wheel dev_of_def calls_of_def)
  then show "calls_of (veikk_raw_event dev 9 data) =
         [Input_report_key BTN_0 (uint (buttons_state dev AND 0x001)),
          Input_report_key BTN_1 (uint (buttons_state dev AND 0x002)),
          Input_report_key BTN_2 (uint (buttons_state dev AND 0x004)),
          Input_report_key BTN_3 (uint (buttons_state dev AND 0x008)),
          Input_report_key BTN_4 (uint (buttons_state dev AND 0x010)),
          Input_report_key BTN_5 (uint (buttons_state dev AND 0x020)),
          Input_report_key BTN_6 (uint (buttons_state dev AND 0x040)),
          Input_report_key BTN_7 (uint (buttons_state dev AND 0x080)),
          Input_report_key BTN_8 (uint (buttons_state dev AND 0x100)),
          Input_report_key BTN_9 (uint (buttons_state dev AND 0x200)),
          Input_report_key KEY_0x118 (uint (buttons_state dev AND 0x400)),
          Input_report_key KEY_0x119 (uint (buttons_state dev AND 0x800)),
          Input_report_key BTN_WHEEL (uint (buttons_state dev AND 0x1000)),
          Input_report_key BTN_GEAR_DOWN
            (if bit (wheel_state (dev_of (veikk_raw_event dev 9 data))) 0 then 1 else 0),
          Input_report_key BTN_GEAR_UP
            (if bit (wheel_state (dev_of (veikk_raw_event dev 9 data))) 1 then 2 else 0),
          Input_sync]"
    by (simp only: report_buttons_def uint_and_bit0 uint_and_bit1 append.simps)
qed

theorem wheel_mask_truncated_witness:
  "wheel_state (dev_of (veikk_raw_event (veikk_probe_device veikk_model_0x0002) 9
      [9, 0x42, 3, 1, 0xfe, 0xff, 0, 0, 0])) = 0xfe
   \<and> calls_of (veikk_raw_event (veikk_probe_device veikk_model_0x0002) 9
      [9, 0x42, 3, 1, 0xfe, 0xff, 0, 0, 0]) =
     [Input_report_key BTN_0 0, Input_report_key BTN_1 0, Input_report_key BTN_2 0,
      Input_report_key BTN_3 0, Input_report_key BTN_4 0, Input_report_key BTN_5 0,
      Input_report_key BTN_6 0, Input_report_key BTN_7 0, Input_report_key BTN_8 0,
      Input_report_key BTN_9 0, Input_report_key KEY_0x118 0, Input_report_key KEY_0x119 0,
      Input_report_key BTN_WHEEL 0,
      Input_report_key BTN_GEAR_DOWN 0, Input_report_key BTN_GEAR_UP 2, Input_sync]"
proof -
  have b: "\<not> bit (0xfe :: 8 word) 0" "bit (0xfe :: 8 word) 1"
    by (simp_all add: bit_iff_odd drop_bit_eq_div)
  note w = wheel_mask_truncated [of "[9, 0x42, 3, 1, 0xfe, 0xff, 0, 0, 0]"
      "veikk_probe_device veikk_model_0x0002"]
  have s: "wheel_state (dev_of (veikk_raw_event (veikk_probe_device veikk_model_0x0002) 9
      [9, 0x42, 3, 1, 0xfe, 0xff, 0, 0, 0])) = 0xfe"
    using w by (simp add: veikk_probe_device_def)
  show ?thesis
    using w s b by (simp add: veikk_probe_device_def)
qed

end
